theory Spec2Isabelle
  imports Main
begin

section \<open>Python values, exceptions and the outside world\<close>

text \<open>
  The service is one Flask handler, \<^verbatim>\<open>fetch_rnaseq_data\<close>, plus the helper
  \<^verbatim>\<open>sanitize_input\<close>. The handler talks to the outside world (NCBI over HTTP, the
  file system, the operator's terminal, an FTP server), so the model is a function of a
  \<open>world\<close>: a record of oracles that say how each outside call answers, given everything
  the handler has done so far. The handler returns its HTTP response together with the
  list of outside calls it made, in order.

  A Python \<^verbatim>\<open>str\<close> is modelled as a \<open>string\<close> holding its UTF-8 bytes. Every
  operation the handler applies to strings (the two regular expressions, \<^verbatim>\<open>replace\<close>,
  \<^verbatim>\<open>os.path.join\<close>, concatenation, comparison with an ASCII literal) only looks for
  ASCII characters, and the bytes of a non-ASCII code point are all \<open>\<ge> 0x80\<close>, so each
  of them computes on the bytes what Python computes on the code points.
\<close>

datatype json =
    JNull
  | JBool bool
  | JNum int
  | JStr string
  | JArr "json list"
  | JObj "(string \<times> json) list"

text \<open>
  \<open>JObj\<close> is a Python \<^verbatim>\<open>dict\<close> with its items in insertion order; \<open>JNull\<close> is
  \<^verbatim>\<open>None\<close>. The handler inspects a number only for being zero, so numbers are integers
  here.
\<close>

datatype exn =
    RequestException
  | FtplibError
  | OSError
  | EOFError
  | HTTPException
  | TypeError
  | AttributeError
  | ValueError
  | OtherException

text \<open>
  \<open>RequestException\<close> stands for \<^verbatim>\<open>requests.exceptions.RequestException\<close> and its
  subclasses (connection errors, timeouts, \<^verbatim>\<open>HTTPError\<close>); \<open>FtplibError\<close> for
  \<^verbatim>\<open>ftplib.Error\<close> and its subclasses; \<open>HTTPException\<close> for werkzeug's
  (\<^verbatim>\<open>BadRequest\<close>, \<^verbatim>\<open>UnsupportedMediaType\<close>), which Flask raises from
  \<^verbatim>\<open>request.get_json()\<close>.
\<close>

record http_response =
  status_code :: nat
  resp_text :: string
  resp_json :: "exn + json"

text \<open>
  \<open>resp_json\<close> is what \<^verbatim>\<open>response.json()\<close> does: the parsed body, or the exception
  the parser raises.
\<close>

datatype event =
    HttpGet string "(string \<times> json) list" nat
  | PathExists string
  | Input string
  | Rmtree string
  | Makedirs string bool
  | FtpConnect string
  | FtpLogin
  | FtpCwd string
  | FtpNlst
  | OpenWb string
  | Retrbinary string string
  | CloseFile string
  | FtpQuit
  | LogInfo string
  | LogError string exn

text \<open>
  One event per outside call, with the arguments of the call: \<open>HttpGet url params timeout\<close>
  is \<^verbatim>\<open>requests.get(url, params=params, timeout=timeout)\<close>, \<open>Makedirs path exist_ok\<close>
  is \<^verbatim>\<open>os.makedirs\<close>, \<open>FtpConnect host\<close> is \<^verbatim>\<open>ftplib.FTP(host)\<close>,
  \<open>Retrbinary cmd path\<close> is \<^verbatim>\<open>ftp.retrbinary(cmd, f.write)\<close> with \<^verbatim>\<open>f\<close> the open
  file at \<open>path\<close>, \<open>CloseFile path\<close> is the exit of the \<^verbatim>\<open>with open(...)\<close>
  block, and \<open>LogError prefix e\<close> is \<^verbatim>\<open>logger.error(f"{prefix}{e}")\<close>.
\<close>

record world =
  API_KEY :: "string option"
  request_get_json :: "exn + json"
  requests_get :: "event list \<Rightarrow> string \<Rightarrow> (string \<times> json) list \<Rightarrow> nat \<Rightarrow> exn + http_response"
  os_path_exists :: "event list \<Rightarrow> string \<Rightarrow> bool"
  py_input :: "event list \<Rightarrow> string \<Rightarrow> exn + string"
  shutil_rmtree :: "event list \<Rightarrow> string \<Rightarrow> exn + unit"
  os_makedirs :: "event list \<Rightarrow> string \<Rightarrow> bool \<Rightarrow> exn + unit"
  ftp_connect :: "event list \<Rightarrow> string \<Rightarrow> exn + unit"
  ftp_login :: "event list \<Rightarrow> exn + unit"
  ftp_cwd :: "event list \<Rightarrow> string \<Rightarrow> exn + unit"
  ftp_nlst :: "event list \<Rightarrow> exn + string list"
  open_wb :: "event list \<Rightarrow> string \<Rightarrow> exn + unit"
  ftp_retrbinary :: "event list \<Rightarrow> string \<Rightarrow> exn + unit"
  ftp_quit :: "event list \<Rightarrow> exn + unit"

text \<open>
  Every oracle takes the events so far as its first argument, so the world may answer the
  same call differently at different times. \<open>API_KEY\<close> is
  \<^verbatim>\<open>os.getenv("NCBI_API_KEY")\<close>, the only configuration the program reads;
  \<open>request_get_json\<close> is what \<^verbatim>\<open>request.get_json()\<close> does for the request at hand.
\<close>

type_synonym 'a io = "event list \<Rightarrow> (exn + 'a) \<times> event list"

definition ret :: "'a \<Rightarrow> 'a io" where
  "ret x h = (Inr x, h)"

definition lift :: "exn + 'a \<Rightarrow> 'a io" where
  "lift r h = (r, h)"

definition bind :: "'a io \<Rightarrow> ('a \<Rightarrow> 'b io) \<Rightarrow> 'b io" where
  "bind m f h = (case m h of (Inl e, h') \<Rightarrow> (Inl e, h') | (Inr x, h') \<Rightarrow> f x h')"

definition call :: "event \<Rightarrow> (event list \<Rightarrow> exn + 'a) \<Rightarrow> 'a io" where
  "call ev answer h = (answer h, h @ [ev])"

definition log_info :: "string \<Rightarrow> unit io" where
  "log_info msg h = (Inr (), h @ [LogInfo msg])"

section \<open>Library functions the handler calls\<close>

definition in_range :: "char \<Rightarrow> char \<Rightarrow> char \<Rightarrow> bool" where
  "in_range lo hi c = ((of_char lo :: nat) \<le> of_char c \<and> (of_char c :: nat) \<le> of_char hi)"

text \<open>
  \<^verbatim>\<open>re.sub(pattern, repl, s)\<close> for a pattern that is one character class: every
  character in the class is a match and is replaced. On anything but a string
  \<^verbatim>\<open>re.sub\<close> raises \<^verbatim>\<open>TypeError\<close>.
\<close>

fun re_sub_class :: "(char \<Rightarrow> bool) \<Rightarrow> string \<Rightarrow> string \<Rightarrow> string" where
  "re_sub_class cls repl [] = []"
| "re_sub_class cls repl (c # cs) =
     (if cls c then repl @ re_sub_class cls repl cs else c # re_sub_class cls repl cs)"

definition re_sub :: "(char \<Rightarrow> bool) \<Rightarrow> string \<Rightarrow> json \<Rightarrow> exn + string" where
  "re_sub cls repl v = (case v of JStr s \<Rightarrow> Inr (re_sub_class cls repl s) | _ \<Rightarrow> Inl TypeError)"

text \<open>The class \<^verbatim>\<open>[^a-zA-Z0-9_ ]\<close>.\<close>

definition sanitize_class :: "char \<Rightarrow> bool" where
  "sanitize_class c =
     (\<not> (in_range CHR ''a'' CHR ''z'' c \<or> in_range CHR ''A'' CHR ''Z'' c \<or>
         in_range CHR ''0'' CHR ''9'' c \<or> c = CHR ''_'' \<or> c = CHR '' ''))"

text \<open>
  \<^verbatim>\<open>re.search(r'ftp://[^"]+', s)\<close>: the leftmost position where \<^verbatim>\<open>ftp://\<close> is
  followed by at least one character other than the double quote; the match runs to the
  next double quote or the end of the string.
\<close>

definition quote :: char where
  "quote = CHR 0x22"

definition match_ftp_here :: "string \<Rightarrow> string option" where
  "match_ftp_here s =
     (if take 6 s = ''ftp://'' \<and> takeWhile (\<lambda>c. c \<noteq> quote) (drop 6 s) \<noteq> []
      then Some (''ftp://'' @ takeWhile (\<lambda>c. c \<noteq> quote) (drop 6 s)) else None)"

fun re_search_ftp :: "string \<Rightarrow> string option" where
  "re_search_ftp [] = None"
| "re_search_ftp (c # cs) =
     (case match_ftp_here (c # cs) of Some m \<Rightarrow> Some m | None \<Rightarrow> re_search_ftp cs)"

text \<open>
  \<^verbatim>\<open>s.replace(old, new)\<close>: every occurrence of \<open>old\<close>, found left to right without
  overlap. \<open>skip\<close> counts the characters of an occurrence still to pass over.
\<close>

fun replace_from :: "string \<Rightarrow> string \<Rightarrow> nat \<Rightarrow> string \<Rightarrow> string" where
  "replace_from old new skip [] = (if old = [] then new else [])"
| "replace_from old new (Suc skip) (c # cs) = replace_from old new skip cs"
| "replace_from old new 0 (c # cs) =
     (if old = [] then new @ c # replace_from old new 0 cs
      else if take (length old) (c # cs) = old
      then new @ replace_from old new (length old - 1) cs
      else c # replace_from old new 0 cs)"

definition str_replace :: "string \<Rightarrow> string \<Rightarrow> string \<Rightarrow> string" where
  "str_replace s old new = replace_from old new 0 s"

text \<open>\<^verbatim>\<open>os.path.join(a, b)\<close> of \<^verbatim>\<open>posixpath\<close>.\<close>

definition os_path_join :: "string \<Rightarrow> string \<Rightarrow> string" where
  "os_path_join a b =
     (if take 1 b = ''/'' then b
      else if a = [] \<or> last a = CHR ''/'' then a @ b
      else a @ ''/'' @ b)"

text \<open>
  \<^verbatim>\<open>s.lower()\<close> on the ASCII letters. The handler only compares the result with
  \<^verbatim>\<open>'s'\<close> and \<^verbatim>\<open>'n'\<close>, and no non-ASCII character lowers to either.
\<close>

definition lower :: "string \<Rightarrow> string" where
  "lower s = map (\<lambda>c. if in_range CHR ''A'' CHR ''Z'' c then char_of (of_char c + (32::nat)) else c) s"

text \<open>The decimal digits of a number, as an f-string prints it.\<close>

fun show_nat :: "nat \<Rightarrow> string" where
  "show_nat n =
     (if n < 10 then [char_of (48 + n)] else show_nat (n div 10) @ [char_of (48 + n mod 10)])"

declare show_nat.simps [simp del]

text \<open>\<^verbatim>\<open>d.get(key, default)\<close>; only a dict has the method.\<close>

definition dict_get :: "json \<Rightarrow> string \<Rightarrow> json \<Rightarrow> exn + json" where
  "dict_get d k dflt =
     (case d of
        JObj kvs \<Rightarrow> Inr (case map_of kvs k of Some v \<Rightarrow> v | None \<Rightarrow> dflt)
      | _ \<Rightarrow> Inl AttributeError)"

text \<open>Python's truth value, as \<^verbatim>\<open>if not x\<close> tests it.\<close>

fun truthy :: "json \<Rightarrow> bool" where
  "truthy JNull = False"
| "truthy (JBool b) = b"
| "truthy (JNum n) = (n \<noteq> 0)"
| "truthy (JStr s) = (s \<noteq> [])"
| "truthy (JArr xs) = (xs \<noteq> [])"
| "truthy (JObj kvs) = (kvs \<noteq> [])"

text \<open>
  The items a \<^verbatim>\<open>for\<close> loop draws from a value: the elements of a list, the characters
  of a string (a character is a lead byte with its continuation bytes), the keys of a
  dict; anything else is not iterable.
\<close>

definition is_continuation :: "char \<Rightarrow> bool" where
  "is_continuation c = ((128::nat) \<le> of_char c \<and> (of_char c :: nat) < 192)"

fun utf8_chars :: "string \<Rightarrow> string list" where
  "utf8_chars [] = []"
| "utf8_chars (c # cs) =
     (case utf8_chars cs of
        [] \<Rightarrow> [[c]]
      | [] # gs \<Rightarrow> [c] # gs
      | (b # bs) # gs \<Rightarrow>
          if is_continuation b then (c # b # bs) # gs else [c] # (b # bs) # gs)"

definition py_iter :: "json \<Rightarrow> exn + json list" where
  "py_iter v =
     (case v of
        JArr xs \<Rightarrow> Inr xs
      | JStr s \<Rightarrow> Inr (map JStr (utf8_chars s))
      | JObj kvs \<Rightarrow> Inr (map (\<lambda>kv. JStr (fst kv)) kvs)
      | _ \<Rightarrow> Inl TypeError)"

text \<open>
  \<^verbatim>\<open>response.raise_for_status()\<close> of the requests library raises \<^verbatim>\<open>HTTPError\<close>, a
  \<^verbatim>\<open>RequestException\<close>, for the client and server error statuses.
\<close>

definition raise_for_status :: "http_response \<Rightarrow> exn + unit" where
  "raise_for_status r =
     (if 400 \<le> status_code r \<and> status_code r < 600 then Inl RequestException else Inr ())"

section \<open>The program\<close>

definition NCBI_BASE_URL :: string where
  "NCBI_BASE_URL = ''https://eutils.ncbi.nlm.nih.gov/entrez/eutils/esearch.fcgi''"

definition NCBI_FETCH_URL :: string where
  "NCBI_FETCH_URL = ''https://eutils.ncbi.nlm.nih.gov/entrez/eutils/efetch.fcgi''"

definition sanitize_input :: "json \<Rightarrow> exn + string" where
  "sanitize_input user_input = re_sub sanitize_class '''' user_input"

type_synonym response = "json \<times> nat"

definition jsonify :: "string \<Rightarrow> string \<Rightarrow> json" where
  "jsonify k v = JObj [(k, JStr v)]"

definition api_key_param :: "world \<Rightarrow> json" where
  "api_key_param w = (case API_KEY w of None \<Rightarrow> JNull | Some k \<Rightarrow> JStr k)"

definition search_params :: "world \<Rightarrow> string \<Rightarrow> (string \<times> json) list" where
  "search_params w query =
     [(''db'', JStr ''gds''), (''term'', JStr query), (''retmode'', JStr ''json''),
      (''api_key'', api_key_param w)]"

definition fetch_params :: "world \<Rightarrow> json \<Rightarrow> (string \<times> json) list" where
  "fetch_params w study_id =
     [(''db'', JStr ''gds''), (''id'', study_id), (''retmode'', JStr ''xml''),
      (''api_key'', api_key_param w)]"

text \<open>Lines 67 to 77: one detail request per identifier, stopping at the first failure.\<close>

definition fetch_event :: "world \<Rightarrow> json \<Rightarrow> event" where
  "fetch_event w study_id = HttpGet NCBI_FETCH_URL (fetch_params w study_id) 10"

fun fetch_details :: "world \<Rightarrow> json list \<Rightarrow> string list \<Rightarrow> string list io" where
  "fetch_details w [] details = ret details"
| "fetch_details w (study_id # rest) details =
     bind (call (fetch_event w study_id)
             (\<lambda>h. requests_get w h NCBI_FETCH_URL (fetch_params w study_id) 10))
       (\<lambda>fetch_response.
     bind (lift (raise_for_status fetch_response)) (\<lambda>_.
     fetch_details w rest (details @ [resp_text fetch_response])))"

text \<open>Sequencing of steps that may raise.\<close>

definition and_then :: "exn + 'a \<Rightarrow> ('a \<Rightarrow> exn + 'b) \<Rightarrow> exn + 'b" where
  "and_then r f = (case r of Inl e \<Rightarrow> Inl e | Inr x \<Rightarrow> f x)"

text \<open>Lines 40 to 42: the three fields, each with its default, each sanitized.\<close>

definition read_fields :: "json \<Rightarrow> exn + string \<times> string \<times> string" where
  "read_fields data =
     and_then (dict_get data ''organism'' (JStr [])) (\<lambda>organism_field.
     and_then (sanitize_input organism_field) (\<lambda>organism.
     and_then (dict_get data ''tissue'' (JStr ''hippocampus'')) (\<lambda>tissue_field.
     and_then (sanitize_input tissue_field) (\<lambda>tissue.
     and_then (dict_get data ''data_type'' (JStr ''rna-seq'')) (\<lambda>data_type_field.
     and_then (sanitize_input data_type_field) (\<lambda>data_type.
     Inr (organism, tissue, data_type)))))))"

text \<open>Line 48.\<close>

definition build_query :: "string \<Rightarrow> string \<Rightarrow> string \<Rightarrow> string" where
  "build_query organism tissue data_type = organism @ '' '' @ tissue @ '' '' @ data_type"

text \<open>Line 62.\<close>

definition id_list_of :: "json \<Rightarrow> exn + json" where
  "id_list_of result =
     and_then (dict_get result ''esearchresult'' (JObj [])) (\<lambda>esearchresult.
     dict_get esearchresult ''idlist'' (JArr []))"

text \<open>
  Lines 39 to 77: the request is read and checked, the search is made and the details
  are fetched. The result is either a response the handler returns at once (\<open>Inl\<close>) or
  the detail texts (\<open>Inr\<close>).
\<close>

definition search_event :: "world \<Rightarrow> string \<Rightarrow> event" where
  "search_event w query = HttpGet NCBI_BASE_URL (search_params w query) 10"

definition collect_details :: "world \<Rightarrow> (response + string list) io" where
  "collect_details w =
     bind (lift (request_get_json w)) (\<lambda>data.
     bind (lift (read_fields data)) (\<lambda>(organism, tissue, data_type).
     if organism = [] then ret (Inl (jsonify ''error'' ''Organism field is required.'', 400))
     else
       bind (call (search_event w (build_query organism tissue data_type))
               (\<lambda>h. requests_get w h NCBI_BASE_URL
                     (search_params w (build_query organism tissue data_type)) 10))
         (\<lambda>response.
       bind (lift (raise_for_status response)) (\<lambda>_.
       bind (lift (resp_json response)) (\<lambda>result.
       bind (lift (id_list_of result)) (\<lambda>id_list.
       if \<not> truthy id_list
       then ret (Inl (jsonify ''message'' ''No data found for the specified query.'', 404))
       else
         bind (lift (py_iter id_list)) (\<lambda>ids.
         bind (fetch_details w ids []) (\<lambda>details.
         ret (Inr details)))))))))"

text \<open>Lines 114 to 118: every listed file is written under the study's directory.\<close>

definition with_close :: "string \<Rightarrow> 'a io \<Rightarrow> 'a io" where
  "with_close path m h = (case m h of (r, h') \<Rightarrow> (r, h' @ [CloseFile path]))"

fun download_files :: "world \<Rightarrow> string \<Rightarrow> string list \<Rightarrow> unit io" where
  "download_files w study_dir [] = ret ()"
| "download_files w study_dir (file # files) =
     bind (call (OpenWb (os_path_join study_dir file))
             (\<lambda>h. open_wb w h (os_path_join study_dir file))) (\<lambda>_.
     bind (with_close (os_path_join study_dir file)
             (call (Retrbinary (''RETR '' @ file) (os_path_join study_dir file))
                (\<lambda>h. ftp_retrbinary w h (''RETR '' @ file)))) (\<lambda>_.
     bind (log_info (''Archivo descargado: '' @ os_path_join study_dir file)) (\<lambda>_.
     download_files w study_dir files)))"

text \<open>Lines 100 to 120: the body of the download loop for the record at position \<open>idx\<close>.\<close>

definition remote_dir :: "string \<Rightarrow> string" where
  "remote_dir ftp_url = str_replace ftp_url ''ftp://ftp.ncbi.nlm.nih.gov/'' ''''"

definition download_study :: "world \<Rightarrow> string \<Rightarrow> nat \<Rightarrow> string \<Rightarrow> unit io" where
  "download_study w base_dir idx study =
     (case re_search_ftp study of
        None \<Rightarrow> ret ()
      | Some ftp_url \<Rightarrow>
          bind (log_info (''Descargando desde: '' @ ftp_url)) (\<lambda>_.
          bind (call (FtpConnect ''ftp.ncbi.nlm.nih.gov'')
                  (\<lambda>h. ftp_connect w h ''ftp.ncbi.nlm.nih.gov'')) (\<lambda>_.
          bind (call FtpLogin (ftp_login w)) (\<lambda>_.
          bind (call (FtpCwd (remote_dir ftp_url)) (\<lambda>h. ftp_cwd w h (remote_dir ftp_url))) (\<lambda>_.
          bind (call FtpNlst (ftp_nlst w)) (\<lambda>files.
          bind (call (Makedirs (os_path_join base_dir (''study_'' @ show_nat idx)) True)
                  (\<lambda>h. os_makedirs w h (os_path_join base_dir (''study_'' @ show_nat idx)) True))
            (\<lambda>_.
          bind (download_files w (os_path_join base_dir (''study_'' @ show_nat idx)) files) (\<lambda>_.
          call FtpQuit (ftp_quit w)))))))))"

fun download_studies :: "world \<Rightarrow> string \<Rightarrow> nat \<Rightarrow> string list \<Rightarrow> unit io" where
  "download_studies w base_dir idx [] = ret ()"
| "download_studies w base_dir idx (study # rest) =
     bind (download_study w base_dir idx study) (\<lambda>_.
     download_studies w base_dir (Suc idx) rest)"

text \<open>
  Lines 80 to 95: the directory the studies go to, or \<open>None\<close> when the operator cancels.
\<close>

definition BASE_DIR :: string where
  "BASE_DIR = ''/home/caheri_salas/db_scRNAseq''"

definition prompt :: "string \<Rightarrow> string" where
  "prompt base_dir =
     ''El directorio '' @ base_dir @ '' ya existe. '' @ [CHR 0xC2, CHR 0xBF] @
     ''Deseas sobrescribirlo? (s/n) o crear una nueva carpeta '' @
     ''(escribe el nombre de la nueva carpeta): ''"

definition resolve_base_dir :: "world \<Rightarrow> string option io" where
  "resolve_base_dir w =
     bind (call (PathExists BASE_DIR) (\<lambda>h. Inr (os_path_exists w h BASE_DIR))) (\<lambda>exists.
     if exists then
       bind (call (Input (prompt BASE_DIR)) (\<lambda>h. py_input w h (prompt BASE_DIR))) (\<lambda>user_input.
       if lower user_input = ''s'' then
         bind (call (Rmtree BASE_DIR) (\<lambda>h. shutil_rmtree w h BASE_DIR)) (\<lambda>_.
         bind (call (Makedirs BASE_DIR False) (\<lambda>h. os_makedirs w h BASE_DIR False)) (\<lambda>_.
         ret (Some BASE_DIR)))
       else if lower user_input = ''n'' then ret None
       else
         bind (call (Makedirs (os_path_join ''/home/caheri_salas'' user_input) True)
                 (\<lambda>h. os_makedirs w h (os_path_join ''/home/caheri_salas'' user_input) True))
           (\<lambda>_.
         ret (Some (os_path_join ''/home/caheri_salas'' user_input))))
     else
       bind (call (Makedirs BASE_DIR False) (\<lambda>h. os_makedirs w h BASE_DIR False)) (\<lambda>_.
       ret (Some BASE_DIR)))"

text \<open>Lines 80 to 122.\<close>

definition cancelled_message :: string where
  "cancelled_message =
     ''Operaci'' @ [CHR 0xC3, CHR 0xB3] @ ''n cancelada por el usuario.''"

definition save_details :: "world \<Rightarrow> string list \<Rightarrow> response io" where
  "save_details w details =
     bind (resolve_base_dir w) (\<lambda>resolved.
     case resolved of
       None \<Rightarrow> ret (jsonify ''message'' cancelled_message, 200)
     | Some base_dir \<Rightarrow>
         bind (download_studies w base_dir 1 details) (\<lambda>_.
         ret (jsonify ''message'' ''All data fetched and saved successfully.'', 200)))"

text \<open>Lines 37 to 122: the body of the \<^verbatim>\<open>try\<close>.\<close>

definition try_body :: "world \<Rightarrow> response io" where
  "try_body w =
     bind (collect_details w) (\<lambda>r.
     case r of
       Inl early \<Rightarrow> ret early
     | Inr details \<Rightarrow> save_details w details)"

text \<open>
  Lines 124 to 132: the \<^verbatim>\<open>except\<close> clauses, tried in order.
  \<^verbatim>\<open>ftplib.all_errors\<close> is \<^verbatim>\<open>(ftplib.Error, OSError, EOFError)\<close>.
\<close>

fun except_clause :: "exn \<Rightarrow> event \<times> response" where
  "except_clause RequestException =
     (LogError ''Error fetching data from NCBI: '' RequestException,
      (jsonify ''error'' ''Failed to fetch data from NCBI.'', 500))"
| "except_clause FtplibError =
     (LogError ''Error connecting to FTP: '' FtplibError,
      (jsonify ''error'' ''Failed to connect to FTP server.'', 500))"
| "except_clause OSError =
     (LogError ''Error connecting to FTP: '' OSError,
      (jsonify ''error'' ''Failed to connect to FTP server.'', 500))"
| "except_clause EOFError =
     (LogError ''Error connecting to FTP: '' EOFError,
      (jsonify ''error'' ''Failed to connect to FTP server.'', 500))"
| "except_clause e =
     (LogError ''Unexpected error: '' e,
      (jsonify ''error'' ''An unexpected error occurred.'', 500))"

definition fetch_rnaseq_data :: "world \<Rightarrow> response \<times> event list" where
  "fetch_rnaseq_data w =
     (case try_body w [] of
        (Inr r, h) \<Rightarrow> (r, h)
      | (Inl e, h) \<Rightarrow> (snd (except_clause e), h @ [fst (except_clause e)]))"

definition health_check :: response where
  "health_check = (jsonify ''status'' ''API is running.'', 200)"

section \<open>Notions the properties are stated with\<close>

text \<open>The characters the sanitizer is to keep: ASCII letters, digits, underscore, space.\<close>

definition spec_allowed_chars :: "char list" where
  "spec_allowed_chars =
     ''abcdefghijklmnopqrstuvwxyz'' @ ''ABCDEFGHIJKLMNOPQRSTUVWXYZ'' @ ''0123456789'' @ ''_ ''"

text \<open>
  A string matches the pattern \<^verbatim>\<open>ftp://[^"]+\<close> when it is \<^verbatim>\<open>ftp://\<close> followed by
  one or more characters, none of them a double quote.
\<close>

definition ftp_pattern :: "string \<Rightarrow> bool" where
  "ftp_pattern m = (take 6 m = ''ftp://'' \<and> drop 6 m \<noteq> [] \<and> quote \<notin> set (drop 6 m))"

text \<open>A URL without its \<^verbatim>\<open>ftp://<host>/\<close> part, whatever the host.\<close>

definition spec_strip_host :: "string \<Rightarrow> string" where
  "spec_strip_host url = drop 1 (dropWhile (\<lambda>c. c \<noteq> CHR ''/'') (drop 6 url))"

text \<open>\<open>occurs_in old s\<close>: the string \<open>old\<close> occurs somewhere in \<open>s\<close>.\<close>

fun occurs_in :: "string \<Rightarrow> string \<Rightarrow> bool" where
  "occurs_in old [] = (old = [])"
| "occurs_in old (c # cs) = (take (length old) (c # cs) = old \<or> occurs_in old cs)"

text \<open>The events that change the file system or talk to the FTP server.\<close>

fun writes_or_downloads :: "event \<Rightarrow> bool" where
  "writes_or_downloads (HttpGet url params timeout) = False"
| "writes_or_downloads (PathExists path) = False"
| "writes_or_downloads (Input text) = False"
| "writes_or_downloads (LogInfo msg) = False"
| "writes_or_downloads (LogError msg e) = False"
| "writes_or_downloads ev = True"

text \<open>The events that are outbound HTTP or FTP calls.\<close>

fun is_outbound_call :: "event \<Rightarrow> bool" where
  "is_outbound_call (HttpGet url params timeout) = True"
| "is_outbound_call (FtpConnect host) = True"
| "is_outbound_call FtpLogin = True"
| "is_outbound_call (FtpCwd dir) = True"
| "is_outbound_call FtpNlst = True"
| "is_outbound_call (Retrbinary cmd path) = True"
| "is_outbound_call FtpQuit = True"
| "is_outbound_call ev = False"

fun is_dict :: "json \<Rightarrow> bool" where
  "is_dict (JObj kvs) = True"
| "is_dict v = False"

text \<open>
  The organism field is missing: absent from the object, or present and sanitized to
  the empty string.
\<close>

definition organism_missing :: "(string \<times> json) list \<Rightarrow> bool" where
  "organism_missing kvs =
     (case map_of kvs ''organism'' of
        None \<Rightarrow> True
      | Some v \<Rightarrow> sanitize_input v = Inr [])"

text \<open>An optional field is absent or holds a string.\<close>

definition absent_or_str :: "(string \<times> json) list \<Rightarrow> string \<Rightarrow> bool" where
  "absent_or_str kvs k =
     (case map_of kvs k of None \<Rightarrow> True | Some (JStr s) \<Rightarrow> True | Some v \<Rightarrow> False)"

section \<open>Example worlds\<close>

text \<open>
  A world with no network: every HTTP request fails, the base directory does not exist,
  the terminal is closed, and the file system and the FTP server accept everything.
\<close>

definition offline_world :: world where
  "offline_world =
     \<lparr>API_KEY = None,
      request_get_json = Inr (JObj []),
      requests_get = (\<lambda>h url params timeout. Inl RequestException),
      os_path_exists = (\<lambda>h path. False),
      py_input = (\<lambda>h text. Inl EOFError),
      shutil_rmtree = (\<lambda>h path. Inr ()),
      os_makedirs = (\<lambda>h path exist_ok. Inr ()),
      ftp_connect = (\<lambda>h host. Inr ()),
      ftp_login = (\<lambda>h. Inr ()),
      ftp_cwd = (\<lambda>h dir. Inr ()),
      ftp_nlst = (\<lambda>h. Inr [''soft.gz'']),
      open_wb = (\<lambda>h path. Inr ()),
      ftp_retrbinary = (\<lambda>h cmd. Inr ()),
      ftp_quit = (\<lambda>h. Inr ())\<rparr>"

definition search_reply :: "json list \<Rightarrow> http_response" where
  "search_reply ids =
     \<lparr>status_code = 200, resp_text = [],
      resp_json = Inr (JObj [(''esearchresult'', JObj [(''idlist'', JArr ids)])])\<rparr>"

definition detail_text :: string where
  "detail_text =
     ''<Item Name='' @ [quote] @ ''FTPLink'' @ [quote] @ '' Value='' @ [quote] @
     ''ftp://ftp.ncbi.nlm.nih.gov/geo/series/GSE1nnn/GSE1234/'' @ [quote] @ ''/>''"

text \<open>A detail record whose transfer location names another host.\<close>

definition example_org_study :: string where
  "example_org_study =
     ''<a href='' @ [quote] @ ''ftp://ftp.example.org/pub/data'' @ [quote] @ ''>''"

definition detail_reply :: http_response where
  "detail_reply = \<lparr>status_code = 200, resp_text = detail_text, resp_json = Inl ValueError\<rparr>"

text \<open>
  A world where NCBI answers: the first request (the search) returns the identifiers
  \<open>ids\<close>, the request made when \<open>failing\<close> events have happened fails, and every other
  request returns a detail record. The base directory exists and the operator answers
  \<open>reply\<close>.
\<close>

definition ncbi_world :: "json \<Rightarrow> json list \<Rightarrow> nat \<Rightarrow> string \<Rightarrow> world" where
  "ncbi_world body ids failing reply =
     offline_world
       \<lparr>request_get_json := Inr body,
        requests_get := (\<lambda>h url params timeout.
           if h = [] then Inr (search_reply ids)
           else if length h = failing then Inl RequestException
           else Inr detail_reply),
        os_path_exists := (\<lambda>h path. True),
        py_input := (\<lambda>h text. Inr reply)\<rparr>"

definition mouse_request :: json where
  "mouse_request = JObj [(''organism'', JStr ''mouse'')]"

text \<open>
  A world where NCBI answers the first detail request with status 304, which is neither
  a success nor a client or server error, and every later one with a detail record. The
  base directory does not exist.
\<close>

definition not_modified_reply :: http_response where
  "not_modified_reply = \<lparr>status_code = 304, resp_text = [], resp_json = Inl ValueError\<rparr>"

definition not_modified_world :: world where
  "not_modified_world =
     offline_world
       \<lparr>request_get_json := Inr mouse_request,
        requests_get := (\<lambda>h url params timeout.
           if h = [] then Inr (search_reply [JStr ''100001'', JStr ''100002''])
           else if length h = 1 then Inr not_modified_reply
           else Inr detail_reply)\<rparr>"

section \<open>Basic facts about the sequencing of outside calls\<close>

lemma bind_ret: "bind (ret x) f h = f x h"
  by (simp add: bind_def ret_def)

lemma bind_lift_Inr: "bind (lift (Inr x)) f h = f x h"
  by (simp add: bind_def lift_def)

lemma bind_lift_Inl: "bind (lift (Inl e)) f h = (Inl e, h)"
  by (simp add: bind_def lift_def)

lemma bind_call:
  "bind (call ev answer) f h =
     (case answer h of Inl e \<Rightarrow> (Inl e, h @ [ev]) | Inr x \<Rightarrow> f x (h @ [ev]))"
  by (simp add: bind_def call_def split: sum.splits)

lemma bind_log_info: "bind (log_info msg) f h = f () (h @ [LogInfo msg])"
  by (simp add: bind_def log_info_def)

lemmas io_simps = bind_ret bind_lift_Inr bind_lift_Inl bind_call bind_log_info

lemma try_body_unfold:
  "try_body w h =
     (case collect_details w h of
        (Inl e, h') \<Rightarrow> (Inl e, h')
      | (Inr (Inl early), h') \<Rightarrow> (Inr early, h')
      | (Inr (Inr details), h') \<Rightarrow> save_details w details h')"
  by (simp add: try_body_def bind_def ret_def split: prod.splits sum.splits)

lemma collect_details_no_json:
  "request_get_json w = Inl e \<Longrightarrow> collect_details w h = (Inl e, h)"
  by (simp add: collect_details_def io_simps)

lemma collect_details_bad_fields:
  "request_get_json w = Inr data \<Longrightarrow> read_fields data = Inl e \<Longrightarrow>
   collect_details w h = (Inl e, h)"
  by (simp add: collect_details_def io_simps)

section \<open>The sanitizer\<close>

lemma in_range_upt:
  "in_range lo hi c \<longleftrightarrow> c \<in> set (map char_of [of_char lo ..< Suc (of_char hi :: nat)])"
proof
  assume "in_range lo hi c"
  then have "(of_char c :: nat) \<in> set [of_char lo ..< Suc (of_char hi)]"
    by (simp only: in_range_def set_upt atLeastLessThan_iff less_Suc_eq_le)
  then have "char_of (of_char c :: nat) \<in> char_of ` set [of_char lo ..< Suc (of_char hi :: nat)]"
    by (rule imageI)
  then show "c \<in> set (map char_of [of_char lo ..< Suc (of_char hi :: nat)])"
    by simp
next
  assume "c \<in> set (map char_of [of_char lo ..< Suc (of_char hi :: nat)])"
  then obtain n :: nat where n: "of_char lo \<le> n" "n \<le> of_char hi" "c = char_of n"
    by auto
  have hi: "(of_char hi :: nat) < 256"
    by (metis of_char_mod_256 mod_less_divisor zero_less_numeral)
  have "n < 256" by (rule le_less_trans [OF n(2) hi])
  then have "(of_char c :: nat) = n" using n(3) by simp
  then show "in_range lo hi c" using n by (simp add: in_range_def)
qed

lemma lower_case_letters:
  "map char_of [of_char CHR ''a'' ..< Suc (of_char CHR ''z'' :: nat)] = ''abcdefghijklmnopqrstuvwxyz''"
  by code_simp

lemma upper_case_letters:
  "map char_of [of_char CHR ''A'' ..< Suc (of_char CHR ''Z'' :: nat)] = ''ABCDEFGHIJKLMNOPQRSTUVWXYZ''"
  by code_simp

lemma digit_chars:
  "map char_of [of_char CHR ''0'' ..< Suc (of_char CHR ''9'' :: nat)] = ''0123456789''"
  by code_simp

lemma sanitize_class_iff: "sanitize_class c \<longleftrightarrow> c \<notin> set spec_allowed_chars"
  unfolding sanitize_class_def spec_allowed_chars_def in_range_upt
    lower_case_letters upper_case_letters digit_chars
  by (simp only: set_append Un_iff) simp

lemma re_sub_class_delete: "re_sub_class cls [] s = filter (\<lambda>c. \<not> cls c) s"
  by (induction s) simp_all

lemma sanitize_input_JStr:
  "sanitize_input (JStr s) = Inr (filter (\<lambda>c. c \<in> set spec_allowed_chars) s)"
  by (simp add: sanitize_input_def re_sub_def re_sub_class_delete sanitize_class_iff)

text \<open>
  Claim C1. On every string, \<open>sanitize_input\<close> returns exactly the characters that are
  ASCII letters, digits, underscore or space, in their original order; so its output
  holds only such characters, and sanitizing the output again changes nothing.
\<close>

theorem sanitize_input_keeps_allowed_chars:
  "sanitize_input (JStr s) = Inr (filter (\<lambda>c. c \<in> set spec_allowed_chars) s) \<and>
   set (filter (\<lambda>c. c \<in> set spec_allowed_chars) s) \<subseteq> set spec_allowed_chars \<and>
   sanitize_input (JStr (filter (\<lambda>c. c \<in> set spec_allowed_chars) s)) =
     Inr (filter (\<lambda>c. c \<in> set spec_allowed_chars) s)"
  by (auto simp add: sanitize_input_def re_sub_def re_sub_class_delete sanitize_class_iff)

section \<open>Requests without a JSON object\<close>

lemma read_fields_not_dict: "\<not> is_dict v \<Longrightarrow> read_fields v = Inl AttributeError"
  by (cases v) (simp_all add: read_fields_def dict_get_def and_then_def)

text \<open>
  Claim C10. When the request carries no parseable JSON (Flask raises from
  \<open>get_json\<close>) or the JSON value is not an object, the handler answers 500 with the
  unexpected-error message, not the 400 validation response, and makes no outside call.
\<close>

theorem non_object_body_is_unexpected_error:
  assumes "request_get_json w = Inl HTTPException \<or>
           (\<exists>v. request_get_json w = Inr v \<and> \<not> is_dict v)"
  shows "fst (fetch_rnaseq_data w) = (jsonify ''error'' ''An unexpected error occurred.'', 500) \<and>
         (snd (fetch_rnaseq_data w) = [LogError ''Unexpected error: '' HTTPException] \<or>
          snd (fetch_rnaseq_data w) = [LogError ''Unexpected error: '' AttributeError])"
  using assms
  by (auto simp add: fetch_rnaseq_data_def try_body_unfold collect_details_no_json
      collect_details_bad_fields read_fields_not_dict)

theorem non_object_body_is_unexpected_error_witness:
  "fst (fetch_rnaseq_data (offline_world\<lparr>request_get_json := Inr (JArr [JStr ''mouse''])\<rparr>)) =
     (jsonify ''error'' ''An unexpected error occurred.'', 500) \<and>
   fst (fetch_rnaseq_data (offline_world\<lparr>request_get_json := Inr JNull\<rparr>)) =
     (jsonify ''error'' ''An unexpected error occurred.'', 500) \<and>
   fst (fetch_rnaseq_data (offline_world\<lparr>request_get_json := Inl HTTPException\<rparr>)) =
     (jsonify ''error'' ''An unexpected error occurred.'', 500)"
  using non_object_body_is_unexpected_error
      [of "offline_world\<lparr>request_get_json := Inr (JArr [JStr ''mouse''])\<rparr>"]
    non_object_body_is_unexpected_error [of "offline_world\<lparr>request_get_json := Inr JNull\<rparr>"]
    non_object_body_is_unexpected_error
      [of "offline_world\<lparr>request_get_json := Inl HTTPException\<rparr>"]
  by (simp add: offline_world_def)

lemma bind_lift:
  "bind (lift r) f h = (case r of Inl e \<Rightarrow> (Inl e, h) | Inr x \<Rightarrow> f x h)"
  by (simp add: bind_def lift_def split: sum.splits)

lemma bind_then_ret:
  "bind m (\<lambda>x. ret (g x)) h =
     (case m h of (Inl e, h') \<Rightarrow> (Inl e, h') | (Inr x, h') \<Rightarrow> (Inr (g x), h'))"
  by (simp add: bind_def ret_def split: sum.splits prod.splits)

section \<open>The validation of the organism field\<close>

lemma collect_details_no_organism:
  "request_get_json w = Inr data \<Longrightarrow> read_fields data = Inr ([], tissue, data_type) \<Longrightarrow>
   collect_details w h = (Inr (Inl (jsonify ''error'' ''Organism field is required.'', 400)), h)"
  by (simp add: collect_details_def io_simps ret_def)

lemma read_fields_missing_organism:
  assumes "organism_missing kvs" "absent_or_str kvs ''tissue''" "absent_or_str kvs ''data_type''"
  shows "\<exists>tissue data_type. read_fields (JObj kvs) = Inr ([], tissue, data_type)"
  using assms
  by (auto simp add: organism_missing_def absent_or_str_def read_fields_def dict_get_def
      and_then_def sanitize_input_JStr split: option.splits json.splits)

lemma read_fields_missing_organism_bad_field:
  assumes "organism_missing kvs"
    and "\<not> (absent_or_str kvs ''tissue'' \<and> absent_or_str kvs ''data_type'')"
  shows "read_fields (JObj kvs) = Inl TypeError"
  using assms
  by (auto simp add: organism_missing_def absent_or_str_def read_fields_def dict_get_def
      and_then_def sanitize_input_def re_sub_def split: option.splits json.splits)

text \<open>
  Claim C2, amended. When the JSON body is an object whose organism field is absent or
  sanitizes to the empty string, the handler makes no outbound HTTP or FTP call before
  returning. It answers 400 with the validation message when the tissue and data_type
  fields are each absent or a string; when one of them is present and not a string,
  sanitizing it raises and the answer is 500 with the unexpected-error message.
\<close>

theorem missing_organism_never_calls_out:
  assumes "request_get_json w = Inr (JObj kvs)"
    and "organism_missing kvs"
  shows "fetch_rnaseq_data w =
           (if absent_or_str kvs ''tissue'' \<and> absent_or_str kvs ''data_type''
            then ((jsonify ''error'' ''Organism field is required.'', 400), [])
            else ((jsonify ''error'' ''An unexpected error occurred.'', 500),
                  [LogError ''Unexpected error: '' TypeError])) \<and>
         filter is_outbound_call (snd (fetch_rnaseq_data w)) = []"
proof (cases "absent_or_str kvs ''tissue'' \<and> absent_or_str kvs ''data_type''")
  case True
  then obtain tissue data_type where "read_fields (JObj kvs) = Inr ([], tissue, data_type)"
    using read_fields_missing_organism [OF assms(2)] by blast
  then have "collect_details w [] =
      (Inr (Inl (jsonify ''error'' ''Organism field is required.'', 400)), [])"
    using assms(1) by (rule collect_details_no_organism [rotated])
  with True show ?thesis
    by (simp add: fetch_rnaseq_data_def try_body_unfold)
next
  case False
  from read_fields_missing_organism_bad_field [OF assms(2) False]
  have "collect_details w [] = (Inl TypeError, [])"
    using assms(1) by (simp add: collect_details_bad_fields)
  with False show ?thesis
    by (simp add: fetch_rnaseq_data_def try_body_unfold)
qed

theorem missing_organism_never_calls_out_witness:
  "fetch_rnaseq_data
     (offline_world\<lparr>request_get_json := Inr (JObj [(''tissue'', JStr ''cortex'')])\<rparr>) =
     ((jsonify ''error'' ''Organism field is required.'', 400), []) \<and>
   fetch_rnaseq_data
     (offline_world\<lparr>request_get_json := Inr (JObj [(''organism'', JStr ''<?>'')])\<rparr>) =
     ((jsonify ''error'' ''Organism field is required.'', 400), []) \<and>
   filter is_outbound_call
     (snd (fetch_rnaseq_data
        (offline_world\<lparr>request_get_json := Inr (JObj [(''data_type'', JNull)])\<rparr>))) = []"
  using missing_organism_never_calls_out
      [of "offline_world\<lparr>request_get_json := Inr (JObj [(''tissue'', JStr ''cortex'')])\<rparr>"
          "[(''tissue'', JStr ''cortex'')]"]
    missing_organism_never_calls_out
      [of "offline_world\<lparr>request_get_json := Inr (JObj [(''organism'', JStr ''<?>'')])\<rparr>"
          "[(''organism'', JStr ''<?>'')]"]
    missing_organism_never_calls_out
      [of "offline_world\<lparr>request_get_json := Inr (JObj [(''data_type'', JNull)])\<rparr>"
          "[(''data_type'', JNull)]"]
  by (simp add: offline_world_def organism_missing_def absent_or_str_def sanitize_input_JStr
      spec_allowed_chars_def)

text \<open>
  The claim as written fails: with the organism absent and a tissue that is a number,
  sanitizing the tissue raises before the organism is checked, and the answer is 500.
\<close>

theorem missing_organism_with_numeric_tissue_counterexample:
  "request_get_json (offline_world\<lparr>request_get_json := Inr (JObj [(''tissue'', JNum 5)])\<rparr>) =
     Inr (JObj [(''tissue'', JNum 5)]) \<and>
   organism_missing [(''tissue'', JNum 5)] \<and>
   fetch_rnaseq_data (offline_world\<lparr>request_get_json := Inr (JObj [(''tissue'', JNum 5)])\<rparr>) =
     ((jsonify ''error'' ''An unexpected error occurred.'', 500),
      [LogError ''Unexpected error: '' TypeError])"
  by (simp add: offline_world_def fetch_rnaseq_data_def try_body_unfold collect_details_def
      io_simps read_fields_def dict_get_def and_then_def sanitize_input_def re_sub_def
      organism_missing_def)

section \<open>The search\<close>

lemma collect_details_search:
  assumes "request_get_json w = Inr data"
    and "read_fields data = Inr (organism, tissue, data_type)"
    and "organism \<noteq> []"
    and "requests_get w h NCBI_BASE_URL
           (search_params w (build_query organism tissue data_type)) 10 = Inr response"
    and "raise_for_status response = Inr ()"
    and "resp_json response = Inr result"
    and "id_list_of result = Inr id_list"
  shows "collect_details w h =
     (if \<not> truthy id_list
      then (Inr (Inl (jsonify ''message'' ''No data found for the specified query.'', 404)),
            h @ [search_event w (build_query organism tissue data_type)])
      else (case py_iter id_list of
              Inl e \<Rightarrow> (Inl e, h @ [search_event w (build_query organism tissue data_type)])
            | Inr ids \<Rightarrow>
               (case fetch_details w ids []
                       (h @ [search_event w (build_query organism tissue data_type)]) of
                  (Inl e, h') \<Rightarrow> (Inl e, h')
                | (Inr details, h') \<Rightarrow> (Inr (Inr details), h'))))"
  using assms
  by (simp add: collect_details_def io_simps bind_then_ret bind_lift [of "py_iter id_list"]
      ret_def cong: sum.case_cong)

text \<open>
  Claim C3. When the search call succeeds and yields an empty identifier list, the
  handler answers 404 with the no-data message; the search request is the only outside
  call, so no detail is fetched and nothing is downloaded.
\<close>

theorem empty_id_list_is_404:
  assumes "request_get_json w = Inr data"
    and "read_fields data = Inr (organism, tissue, data_type)"
    and "organism \<noteq> []"
    and "requests_get w [] NCBI_BASE_URL
           (search_params w (build_query organism tissue data_type)) 10 = Inr response"
    and "raise_for_status response = Inr ()"
    and "resp_json response = Inr result"
    and "id_list_of result = Inr (JArr [])"
  shows "fetch_rnaseq_data w =
     ((jsonify ''message'' ''No data found for the specified query.'', 404),
      [HttpGet NCBI_BASE_URL (search_params w (build_query organism tissue data_type)) 10])"
  using collect_details_search [OF assms]
  by (simp add: fetch_rnaseq_data_def try_body_unfold search_event_def)

lemma read_fields_mouse:
  "read_fields mouse_request = Inr (''mouse'', ''hippocampus'', ''rnaseq'')"
  by (simp add: mouse_request_def read_fields_def dict_get_def and_then_def sanitize_input_def
      re_sub_def sanitize_class_def in_range_def)

theorem empty_id_list_is_404_witness:
  "fetch_rnaseq_data (ncbi_world mouse_request [] 0 ''n'') =
     ((jsonify ''message'' ''No data found for the specified query.'', 404),
      [HttpGet NCBI_BASE_URL
         [(''db'', JStr ''gds''), (''term'', JStr ''mouse hippocampus rnaseq''),
          (''retmode'', JStr ''json''), (''api_key'', JNull)] 10])"
  using empty_id_list_is_404 [of "ncbi_world mouse_request [] 0 ''n''" mouse_request
      "''mouse''" "''hippocampus''" "''rnaseq''" "search_reply []"
      "JObj [(''esearchresult'', JObj [(''idlist'', JArr [])])]"]
  by (simp add: read_fields_mouse ncbi_world_def offline_world_def search_reply_def
      raise_for_status_def id_list_of_def dict_get_def and_then_def search_params_def
      build_query_def api_key_param_def)

section \<open>The detail fetches\<close>

lemma fetch_details_Cons:
  "fetch_details w (x # xs) d h =
     (case requests_get w h NCBI_FETCH_URL (fetch_params w x) 10 of
        Inl e \<Rightarrow> (Inl e, h @ [fetch_event w x])
      | Inr r \<Rightarrow>
          (case raise_for_status r of
             Inl e \<Rightarrow> (Inl e, h @ [fetch_event w x])
           | Inr u \<Rightarrow> fetch_details w xs (d @ [resp_text r]) (h @ [fetch_event w x])))"
  by (simp add: io_simps bind_lift cong: sum.case_cong)

lemma fetch_details_Nil: "fetch_details w [] d h = (Inr d, h)"
  by (simp add: ret_def)

declare fetch_details.simps [simp del]

lemma fetch_details_append:
  "fetch_details w (xs @ ys) d h =
     (case fetch_details w xs d h of
        (Inl e, h') \<Rightarrow> (Inl e, h')
      | (Inr d', h') \<Rightarrow> fetch_details w ys d' h')"
proof (induction xs arbitrary: d h)
  case Nil
  show ?case by (simp add: fetch_details_Nil)
next
  case (Cons x xs)
  show ?case
    by (simp only: append_Cons fetch_details_Cons Cons.IH)
       (simp split: sum.splits)
qed

lemma fetch_details_events:
  "fetch_details w xs d h = (r, h') \<Longrightarrow> \<exists>ys. h' = h @ map (fetch_event w) ys"
proof (induction xs arbitrary: d h)
  case Nil
  then show ?case by (auto simp add: fetch_details_Nil)
next
  case (Cons x xs)
  show ?case
  proof (cases "requests_get w h NCBI_FETCH_URL (fetch_params w x) 10")
    case (Inl e)
    with Cons.prems have "h' = h @ map (fetch_event w) [x]"
      by (simp add: fetch_details_Cons)
    then show ?thesis by blast
  next
    case (Inr resp)
    show ?thesis
    proof (cases "raise_for_status resp")
      case (Inl e)
      with Inr Cons.prems have "h' = h @ map (fetch_event w) [x]"
        by (simp add: fetch_details_Cons)
      then show ?thesis by blast
    next
      case ok: (Inr u)
      with Inr Cons.prems
      have "fetch_details w xs (d @ [resp_text resp]) (h @ [fetch_event w x]) = (r, h')"
        by (simp add: fetch_details_Cons)
      from Cons.IH [OF this] obtain ys where "h' = (h @ [fetch_event w x]) @ map (fetch_event w) ys"
        by blast
      then have "h' = h @ map (fetch_event w) (x # ys)" by simp
      then show ?thesis by blast
    qed
  qed
qed

lemma fetch_details_all_events:
  "fetch_details w xs d h = (Inr d', h') \<Longrightarrow> h' = h @ map (fetch_event w) xs"
proof (induction xs arbitrary: d h)
  case Nil
  then show ?case by (simp add: fetch_details_Nil)
next
  case (Cons x xs)
  from Cons.prems obtain resp where
    resp: "requests_get w h NCBI_FETCH_URL (fetch_params w x) 10 = Inr resp"
      "raise_for_status resp = Inr ()"
      "fetch_details w xs (d @ [resp_text resp]) (h @ [fetch_event w x]) = (Inr d', h')"
    by (auto simp add: fetch_details_Cons split: sum.splits)
  from Cons.IH [OF resp(3)] show ?case by simp
qed

lemma fetch_details_fails:
  assumes "requests_get w h NCBI_FETCH_URL (fetch_params w x) 10 = Inl RequestException \<or>
           (\<exists>r. requests_get w h NCBI_FETCH_URL (fetch_params w x) 10 = Inr r \<and>
                400 \<le> status_code r \<and> status_code r < 600)"
  shows "fetch_details w (x # post) d h = (Inl RequestException, h @ [fetch_event w x])"
  using assms by (auto simp add: fetch_details_Cons raise_for_status_def)

text \<open>
  Claim C4, amended. Let the search succeed and yield identifiers, let the detail fetches
  for the identifiers \<open>before\<close> succeed, and let the fetch for the next identifier fail,
  by a transport failure or by a client or server error status (400 to 599, the statuses
  on which \<^verbatim>\<open>raise_for_status\<close> raises). Then the handler answers 500 with the
  upstream-failure message, and its outside calls are the search, one detail fetch for
  each identifier up to the failing one, and the log entry: no fetch for the identifiers
  \<open>after\<close>, no directory check, no download.
\<close>

theorem failed_detail_fetch_aborts:
  assumes "request_get_json w = Inr data"
    and "read_fields data = Inr (organism, tissue, data_type)"
    and "organism \<noteq> []"
    and "requests_get w [] NCBI_BASE_URL
           (search_params w (build_query organism tissue data_type)) 10 = Inr response"
    and "raise_for_status response = Inr ()"
    and "resp_json response = Inr result"
    and "id_list_of result = Inr id_list"
    and "truthy id_list"
    and "py_iter id_list = Inr (before @ study_id # after)"
    and "fetch_details w before [] [search_event w (build_query organism tissue data_type)] =
           (Inr details, h)"
    and "requests_get w h NCBI_FETCH_URL (fetch_params w study_id) 10 = Inl RequestException \<or>
         (\<exists>r. requests_get w h NCBI_FETCH_URL (fetch_params w study_id) 10 = Inr r \<and>
              400 \<le> status_code r \<and> status_code r < 600)"
  shows "fetch_rnaseq_data w =
     ((jsonify ''error'' ''Failed to fetch data from NCBI.'', 500),
      search_event w (build_query organism tissue data_type) #
      map (fetch_event w) before @
      [fetch_event w study_id, LogError ''Error fetching data from NCBI: '' RequestException])"
proof -
  let ?h0 = "[search_event w (build_query organism tissue data_type)]"
  have h: "h = ?h0 @ map (fetch_event w) before"
    using fetch_details_all_events [OF assms(10)] .
  have "fetch_details w (before @ study_id # after) [] ?h0 =
          (Inl RequestException, h @ [fetch_event w study_id])"
    by (simp add: fetch_details_append assms(10) fetch_details_fails [OF assms(11)])
  then have "collect_details w [] = (Inl RequestException, h @ [fetch_event w study_id])"
    using collect_details_search [OF assms(1-7), of] assms(8,9) by simp
  then show ?thesis
    by (simp add: fetch_rnaseq_data_def try_body_unfold h)
qed

theorem failed_detail_fetch_aborts_witness:
  "fetch_rnaseq_data
     (ncbi_world mouse_request [JStr ''100001'', JStr ''100002'', JStr ''100003''] 2 ''s'') =
     ((jsonify ''error'' ''Failed to fetch data from NCBI.'', 500),
      [HttpGet NCBI_BASE_URL
         [(''db'', JStr ''gds''), (''term'', JStr ''mouse hippocampus rnaseq''),
          (''retmode'', JStr ''json''), (''api_key'', JNull)] 10,
       HttpGet NCBI_FETCH_URL
         [(''db'', JStr ''gds''), (''id'', JStr ''100001''),
          (''retmode'', JStr ''xml''), (''api_key'', JNull)] 10,
       HttpGet NCBI_FETCH_URL
         [(''db'', JStr ''gds''), (''id'', JStr ''100002''),
          (''retmode'', JStr ''xml''), (''api_key'', JNull)] 10,
       LogError ''Error fetching data from NCBI: '' RequestException])"
  using failed_detail_fetch_aborts
    [of "ncbi_world mouse_request [JStr ''100001'', JStr ''100002'', JStr ''100003''] 2 ''s''"
      mouse_request "''mouse''" "''hippocampus''" "''rnaseq''"
      "search_reply [JStr ''100001'', JStr ''100002'', JStr ''100003'']"
      "JObj [(''esearchresult'', JObj [(''idlist'', JArr [JStr ''100001'', JStr ''100002'', JStr ''100003''])])]"
      "JArr [JStr ''100001'', JStr ''100002'', JStr ''100003'']"
      "[JStr ''100001'']" "JStr ''100002''" "[JStr ''100003'']"
      "[detail_text]"
      "[search_event (ncbi_world mouse_request [JStr ''100001'', JStr ''100002'', JStr ''100003''] 2 ''s'') ''mouse hippocampus rnaseq'',
        fetch_event (ncbi_world mouse_request [JStr ''100001'', JStr ''100002'', JStr ''100003''] 2 ''s'') (JStr ''100001'')]"]
  by (simp add: read_fields_mouse ncbi_world_def offline_world_def search_reply_def
      detail_reply_def raise_for_status_def id_list_of_def dict_get_def and_then_def
      search_params_def fetch_params_def build_query_def api_key_param_def py_iter_def
      fetch_details_Cons fetch_details_Nil search_event_def fetch_event_def)

section \<open>Records without a transfer location\<close>

lemma match_ftp_here_Some:
  "match_ftp_here s = Some m \<Longrightarrow> ftp_pattern m \<and> (\<exists>post. s = m @ post)"
proof -
  assume a: "match_ftp_here s = Some m"
  let ?r = "takeWhile (\<lambda>c. c \<noteq> quote) (drop 6 s)"
  from a have t: "take 6 s = ''ftp://''" and r: "?r \<noteq> []" and m: "m = ''ftp://'' @ ?r"
    by (auto simp add: match_ftp_here_def split: if_splits)
  have "quote \<notin> set ?r"
    by (auto dest: set_takeWhileD)
  then have "ftp_pattern m" using r m by (simp add: ftp_pattern_def)
  moreover have "s = take 6 s @ ?r @ dropWhile (\<lambda>c. c \<noteq> quote) (drop 6 s)"
    by simp
  then have "s = m @ dropWhile (\<lambda>c. c \<noteq> quote) (drop 6 s)"
    using t m by simp
  ultimately show ?thesis by blast
qed

lemma re_search_ftp_Some:
  "re_search_ftp s = Some m \<Longrightarrow> ftp_pattern m \<and> (\<exists>pre post. s = pre @ m @ post)"
proof (induction s)
  case Nil
  then show ?case by simp
next
  case (Cons c cs)
  show ?case
  proof (cases "match_ftp_here (c # cs)")
    case None
    with Cons.prems have "re_search_ftp cs = Some m" by simp
    from Cons.IH [OF this] obtain pre post where "ftp_pattern m" "cs = pre @ m @ post"
      by blast
    then have "c # cs = (c # pre) @ m @ post" by simp
    with \<open>ftp_pattern m\<close> show ?thesis by blast
  next
    case (Some m')
    with Cons.prems have "m' = m" by simp
    with Some match_ftp_here_Some [of "c # cs" m] obtain post where
      "ftp_pattern m" "c # cs = [] @ m @ post" by auto
    then show ?thesis by blast
  qed
qed

lemma match_ftp_here_pattern:
  assumes "ftp_pattern m"
  shows "match_ftp_here (m @ post) \<noteq> None"
proof -
  from assms have t: "take 6 m = ''ftp://''" and d: "drop 6 m \<noteq> []"
    and q: "quote \<notin> set (drop 6 m)"
    by (simp_all add: ftp_pattern_def)
  have "length (take 6 m) = length ''ftp://''" by (simp only: t)
  then have len: "6 \<le> length m" by simp
  then have t': "take 6 (m @ post) = ''ftp://''" using t by simp
  from d obtain x xs where x: "drop 6 m = x # xs" by (cases "drop 6 m") auto
  with q have "x \<noteq> quote" by auto
  moreover have "drop 6 (m @ post) = x # xs @ post" using len x by simp
  ultimately have "takeWhile (\<lambda>c. c \<noteq> quote) (drop 6 (m @ post)) \<noteq> []" by simp
  with t' show ?thesis by (simp add: match_ftp_here_def)
qed

lemma re_search_ftp_finds:
  assumes "ftp_pattern m"
  shows "re_search_ftp (pre @ m @ post) \<noteq> None"
proof (induction pre)
  case Nil
  from assms have "m \<noteq> []" by (auto simp add: ftp_pattern_def)
  then obtain c cs where "m @ post = c # cs" by (cases m) auto
  with match_ftp_here_pattern [OF assms, of post] show ?case
    by (auto split: option.splits)
next
  case (Cons c pre)
  then show ?case by (auto split: option.splits)
qed

lemma re_search_ftp_None_iff:
  "re_search_ftp s = None \<longleftrightarrow> \<not> (\<exists>pre m post. s = pre @ m @ post \<and> ftp_pattern m)"
proof
  assume "re_search_ftp s = None"
  then show "\<not> (\<exists>pre m post. s = pre @ m @ post \<and> ftp_pattern m)"
    using re_search_ftp_finds by blast
next
  assume n: "\<not> (\<exists>pre m post. s = pre @ m @ post \<and> ftp_pattern m)"
  show "re_search_ftp s = None"
  proof (cases "re_search_ftp s")
    case None
    then show ?thesis .
  next
    case (Some m)
    from re_search_ftp_Some [OF this] n show ?thesis by blast
  qed
qed

text \<open>
  Claim C5. A record whose detail text contains no substring matching the
  \<^verbatim>\<open>ftp://\<close> pattern is skipped silently: the loop body for it makes no outside
  call at all (no FTP connection, no directory creation, no download, no log entry) and
  raises nothing, and the loop goes on with the next record.
\<close>

theorem record_without_ftp_url_is_skipped:
  assumes "\<not> (\<exists>pre m post. study = pre @ m @ post \<and> ftp_pattern m)"
  shows "download_study w base_dir idx study h = (Inr (), h) \<and>
         download_studies w base_dir idx (study # rest) h =
           download_studies w base_dir (Suc idx) rest h"
proof -
  from assms have "re_search_ftp study = None"
    by (simp add: re_search_ftp_None_iff)
  then have "download_study w base_dir idx study h = (Inr (), h)"
    by (simp add: download_study_def ret_def)
  then show ?thesis by (simp add: bind_def)
qed

theorem record_without_ftp_url_is_skipped_witness:
  "download_study offline_world BASE_DIR 1 ''<DocSum><Id>100001</Id></DocSum>'' [] = (Inr (), []) \<and>
   download_studies offline_world BASE_DIR 1 [''<DocSum><Id>100001</Id></DocSum>''] [] = (Inr (), [])"
proof -
  have "re_search_ftp ''<DocSum><Id>100001</Id></DocSum>'' = None"
    by (simp add: match_ftp_here_def)
  then have "\<not> (\<exists>pre m post. ''<DocSum><Id>100001</Id></DocSum>'' = pre @ m @ post \<and> ftp_pattern m)"
    by (rule iffD1 [OF re_search_ftp_None_iff])
  from record_without_ftp_url_is_skipped [OF this, of offline_world BASE_DIR 1 "[]" "[]"]
  show ?thesis by (simp add: ret_def)
qed

section \<open>The operator cancels\<close>

lemma no_writes_fetch_events: "filter writes_or_downloads (map (fetch_event w) ys) = []"
  by (induction ys) (simp_all add: fetch_event_def)

lemma collect_details_events:
  assumes "collect_details w h = (r, h')"
  shows "\<exists>hs. h' = h @ hs \<and> filter writes_or_downloads hs = []"
proof (cases "request_get_json w")
  case (Inl e)
  with assms show ?thesis by (simp add: collect_details_no_json)
next
  case data: (Inr data)
  show ?thesis
  proof (cases "read_fields data")
    case (Inl e)
    with data assms show ?thesis by (simp add: collect_details_bad_fields)
  next
    case (Inr fields)
    obtain organism tissue data_type where f: "fields = (organism, tissue, data_type)"
      by (cases fields) auto
    let ?ev = "search_event w (build_query organism tissue data_type)"
    have ev: "\<not> writes_or_downloads ?ev" by (simp add: search_event_def)
    have "h' = h \<or> h' = h @ [?ev] \<or> (\<exists>ys. h' = h @ ?ev # map (fetch_event w) ys)"
      using assms data Inr f
      by (auto simp add: collect_details_def io_simps bind_lift bind_then_ret ret_def
          split: if_splits sum.splits prod.splits dest!: fetch_details_events)
    then show ?thesis
    proof (elim disjE exE)
      assume "h' = h"
      then show ?thesis by simp
    next
      assume "h' = h @ [?ev]"
      with ev show ?thesis by simp
    next
      fix ys assume "h' = h @ ?ev # map (fetch_event w) ys"
      with ev no_writes_fetch_events [of w ys] show ?thesis by simp
    qed
  qed
qed

lemma resolve_base_dir_cancel:
  assumes "os_path_exists w h BASE_DIR"
    and "py_input w (h @ [PathExists BASE_DIR]) (prompt BASE_DIR) = Inr reply"
    and "lower reply = ''n''"
  shows "resolve_base_dir w h = (Inr None, h @ [PathExists BASE_DIR, Input (prompt BASE_DIR)])"
  using assms by (simp add: resolve_base_dir_def io_simps ret_def)

text \<open>
  Claim C6. When the handler reaches the directory check, the base directory exists and
  the operator answers \<^verbatim>\<open>n\<close> (in either case), the handler answers 200 with the
  cancellation message. After the HTTP requests it only asks whether the directory exists
  and reads the reply: no event of the whole request deletes or creates a directory,
  opens a file or talks to the FTP server.
\<close>

theorem cancel_leaves_files_untouched:
  assumes "collect_details w [] = (Inr (Inr details), h)"
    and "os_path_exists w h BASE_DIR"
    and "py_input w (h @ [PathExists BASE_DIR]) (prompt BASE_DIR) = Inr reply"
    and "lower reply = ''n''"
  shows "fetch_rnaseq_data w =
           ((jsonify ''message'' cancelled_message, 200),
            h @ [PathExists BASE_DIR, Input (prompt BASE_DIR)]) \<and>
         filter writes_or_downloads (snd (fetch_rnaseq_data w)) = []"
proof -
  have "save_details w details h =
          (Inr (jsonify ''message'' cancelled_message, 200),
           h @ [PathExists BASE_DIR, Input (prompt BASE_DIR)])"
    by (simp add: save_details_def bind_def resolve_base_dir_cancel [OF assms(2-4)] ret_def)
  then have r: "fetch_rnaseq_data w =
           ((jsonify ''message'' cancelled_message, 200),
            h @ [PathExists BASE_DIR, Input (prompt BASE_DIR)])"
    by (simp add: fetch_rnaseq_data_def try_body_unfold assms(1))
  from collect_details_events [OF assms(1)] have "filter writes_or_downloads h = []"
    by auto
  with r show ?thesis by simp
qed

lemma lower_examples: "lower ''N'' = ''n''" "lower ''n'' = ''n''" "lower ''S'' = ''s''"
  by code_simp+

lemma collect_details_mouse:
  "collect_details (ncbi_world mouse_request [JStr ''100001'', JStr ''100002''] 0 reply) [] =
     (Inr (Inr [detail_text, detail_text]),
      [HttpGet NCBI_BASE_URL
         [(''db'', JStr ''gds''), (''term'', JStr ''mouse hippocampus rnaseq''),
          (''retmode'', JStr ''json''), (''api_key'', JNull)] 10,
       HttpGet NCBI_FETCH_URL
         [(''db'', JStr ''gds''), (''id'', JStr ''100001''),
          (''retmode'', JStr ''xml''), (''api_key'', JNull)] 10,
       HttpGet NCBI_FETCH_URL
         [(''db'', JStr ''gds''), (''id'', JStr ''100002''),
          (''retmode'', JStr ''xml''), (''api_key'', JNull)] 10])"
  using collect_details_search [of "ncbi_world mouse_request [JStr ''100001'', JStr ''100002''] 0 reply"
      mouse_request "''mouse''" "''hippocampus''" "''rnaseq''" "[]"
      "search_reply [JStr ''100001'', JStr ''100002'']"
      "JObj [(''esearchresult'', JObj [(''idlist'', JArr [JStr ''100001'', JStr ''100002''])])]"
      "JArr [JStr ''100001'', JStr ''100002'']"]
  by (simp add: read_fields_mouse ncbi_world_def offline_world_def search_reply_def
      detail_reply_def raise_for_status_def id_list_of_def dict_get_def and_then_def
      search_params_def fetch_params_def build_query_def api_key_param_def py_iter_def
      fetch_details_Cons fetch_details_Nil search_event_def fetch_event_def)

theorem cancel_leaves_files_untouched_witness:
  "fetch_rnaseq_data (ncbi_world mouse_request [JStr ''100001'', JStr ''100002''] 0 ''N'') =
     ((jsonify ''message'' cancelled_message, 200),
      [HttpGet NCBI_BASE_URL
         [(''db'', JStr ''gds''), (''term'', JStr ''mouse hippocampus rnaseq''),
          (''retmode'', JStr ''json''), (''api_key'', JNull)] 10,
       HttpGet NCBI_FETCH_URL
         [(''db'', JStr ''gds''), (''id'', JStr ''100001''),
          (''retmode'', JStr ''xml''), (''api_key'', JNull)] 10,
       HttpGet NCBI_FETCH_URL
         [(''db'', JStr ''gds''), (''id'', JStr ''100002''),
          (''retmode'', JStr ''xml''), (''api_key'', JNull)] 10,
       PathExists BASE_DIR, Input (prompt BASE_DIR)])"
  using cancel_leaves_files_untouched [OF collect_details_mouse [of "''N''"], of "''N''"]
  by (simp add: ncbi_world_def offline_world_def lower_examples)

section \<open>The default query\<close>

text \<open>
  Claim C7. For the request with organism \<^verbatim>\<open>mouse\<close> and nothing else, the default
  data type \<^verbatim>\<open>rna-seq\<close> is itself passed through the sanitizer, which removes the
  hyphen: the search term sent is \<^verbatim>\<open>mouse hippocampus rnaseq\<close>. When the search
  returns the identifiers 100001 and 100002, two detail fetches follow, one per
  identifier, in that order.
\<close>

theorem mouse_default_query_loses_hyphen:
  "read_fields mouse_request = Inr (''mouse'', ''hippocampus'', ''rnaseq'') \<and>
   build_query ''mouse'' ''hippocampus'' ''rnaseq'' = ''mouse hippocampus rnaseq'' \<and>
   fetch_rnaseq_data (ncbi_world mouse_request [JStr ''100001'', JStr ''100002''] 0 ''n'') =
     ((jsonify ''message'' cancelled_message, 200),
      [HttpGet NCBI_BASE_URL
         [(''db'', JStr ''gds''), (''term'', JStr ''mouse hippocampus rnaseq''),
          (''retmode'', JStr ''json''), (''api_key'', JNull)] 10,
       HttpGet NCBI_FETCH_URL
         [(''db'', JStr ''gds''), (''id'', JStr ''100001''),
          (''retmode'', JStr ''xml''), (''api_key'', JNull)] 10,
       HttpGet NCBI_FETCH_URL
         [(''db'', JStr ''gds''), (''id'', JStr ''100002''),
          (''retmode'', JStr ''xml''), (''api_key'', JNull)] 10,
       PathExists BASE_DIR, Input (prompt BASE_DIR)])"
proof -
  let ?w = "ncbi_world mouse_request [JStr ''100001'', JStr ''100002''] 0 ''n''"
  have "resolve_base_dir ?w h = (Inr None, h @ [PathExists BASE_DIR, Input (prompt BASE_DIR)])" for h
    by (rule resolve_base_dir_cancel [where reply = "''n''"])
       (simp_all add: ncbi_world_def offline_world_def lower_examples)
  then have "save_details ?w details h =
          (Inr (jsonify ''message'' cancelled_message, 200),
           h @ [PathExists BASE_DIR, Input (prompt BASE_DIR)])" for details h
    by (simp add: save_details_def bind_def ret_def)
  then show ?thesis
    by (simp add: fetch_rnaseq_data_def try_body_unfold collect_details_mouse read_fields_mouse
        build_query_def)
qed

section \<open>The base directory\<close>






section \<open>The remote directory\<close>

lemma replace_from_absent:
  "old \<noteq> [] \<Longrightarrow> \<not> occurs_in old s \<Longrightarrow> replace_from old new 0 s = s"
  by (induction s) simp_all

lemma replace_from_skip:
  "length xs = k \<Longrightarrow> replace_from old new k (xs @ s) = replace_from old new 0 s"
proof (induction xs arbitrary: k)
  case Nil
  then show ?case by simp
next
  case (Cons x xs)
  then obtain k' where "k = Suc k'" "length xs = k'" by (cases k) auto
  with Cons.IH show ?case by simp
qed

lemma replace_from_prefix:
  assumes "old \<noteq> []"
  shows "replace_from old new 0 (old @ s) = new @ replace_from old new 0 s"
proof -
  from assms obtain c cs where old: "old = c # cs" by (cases old) auto
  have "replace_from old new 0 (c # (cs @ s)) = new @ replace_from old new (length old - 1) (cs @ s)"
    by (simp add: old)
  also have "replace_from old new (length old - 1) (cs @ s) = replace_from old new 0 s"
    by (rule replace_from_skip) (simp add: old)
  finally show ?thesis by (simp add: old)
qed

lemma remote_dir_ncbi:
  assumes "\<not> occurs_in ''ftp://ftp.ncbi.nlm.nih.gov/'' path"
  shows "remote_dir (''ftp://ftp.ncbi.nlm.nih.gov/'' @ path) = path"
proof -
  have "replace_from ''ftp://ftp.ncbi.nlm.nih.gov/'' [] 0 (''ftp://ftp.ncbi.nlm.nih.gov/'' @ path) =
        [] @ replace_from ''ftp://ftp.ncbi.nlm.nih.gov/'' [] 0 path"
    by (rule replace_from_prefix) simp
  also have "replace_from ''ftp://ftp.ncbi.nlm.nih.gov/'' [] 0 path = path"
    by (rule replace_from_absent [OF _ assms]) simp
  finally show ?thesis by (simp add: remote_dir_def str_replace_def)
qed

lemma spec_strip_host_ncbi: "spec_strip_host (''ftp://ftp.ncbi.nlm.nih.gov/'' @ path) = path"
  by (simp add: spec_strip_host_def)


lemma bind_with_close_call:
  "bind (with_close path (call ev answer)) f h =
     (case answer h of
        Inl e \<Rightarrow> (Inl e, h @ [ev, CloseFile path])
      | Inr x \<Rightarrow> f x (h @ [ev, CloseFile path]))"
  by (simp add: bind_def with_close_def call_def split: sum.splits)

lemma download_files_Nil: "download_files w d [] h = (Inr (), h)"
  by (simp add: ret_def)

lemma download_files_Cons:
  "download_files w d (file # files) h =
     (case open_wb w h (os_path_join d file) of
        Inl e \<Rightarrow> (Inl e, h @ [OpenWb (os_path_join d file)])
      | Inr u \<Rightarrow>
          (case ftp_retrbinary w (h @ [OpenWb (os_path_join d file)]) (''RETR '' @ file) of
             Inl e \<Rightarrow>
               (Inl e, h @ [OpenWb (os_path_join d file),
                            Retrbinary (''RETR '' @ file) (os_path_join d file),
                            CloseFile (os_path_join d file)])
           | Inr u' \<Rightarrow>
               download_files w d files
                 (h @ [OpenWb (os_path_join d file),
                       Retrbinary (''RETR '' @ file) (os_path_join d file),
                       CloseFile (os_path_join d file),
                       LogInfo (''Archivo descargado: '' @ os_path_join d file)])))"
  by (simp add: io_simps bind_with_close_call cong: sum.case_cong)

declare download_files.simps [simp del]

lemma download_files_extends: "\<exists>hs. snd (download_files w d files h) = h @ hs"
proof (induction files arbitrary: h)
  case Nil
  show ?case by (simp add: download_files_Nil)
next
  case (Cons f fs)
  let ?h = "h @ [OpenWb (os_path_join d f),
                 Retrbinary (''RETR '' @ f) (os_path_join d f),
                 CloseFile (os_path_join d f),
                 LogInfo (''Archivo descargado: '' @ os_path_join d f)]"
  from Cons.IH [of ?h] obtain hs where "snd (download_files w d fs ?h) = ?h @ hs" by blast
  then show ?case
    by (simp add: download_files_Cons split: sum.splits)
qed

lemma after_cwd_extends:
  "\<exists>hs. snd (bind (call (FtpCwd dir) answer) (\<lambda>_.
          bind (call FtpNlst (ftp_nlst w)) (\<lambda>files.
          bind (call (Makedirs sd True) (\<lambda>h. os_makedirs w h sd True)) (\<lambda>_.
          bind (download_files w sd files) (\<lambda>_.
          call FtpQuit (ftp_quit w))))) h) = h @ FtpCwd dir # hs"
proof (cases "answer h")
  case (Inl e)
  then show ?thesis by (simp add: io_simps)
next
  case cwd: (Inr u)
  show ?thesis
  proof (cases "ftp_nlst w (h @ [FtpCwd dir])")
    case (Inl e)
    with cwd show ?thesis by (simp add: io_simps)
  next
    case nlst: (Inr files)
    show ?thesis
    proof (cases "os_makedirs w (h @ [FtpCwd dir, FtpNlst]) sd True")
      case (Inl e)
      with cwd nlst show ?thesis by (simp add: io_simps)
    next
      case mk: (Inr u')
      let ?h = "h @ [FtpCwd dir, FtpNlst, Makedirs sd True]"
      obtain hs where hs: "snd (download_files w sd files ?h) = ?h @ hs"
        using download_files_extends by blast
      obtain r h' where d: "download_files w sd files ?h = (r, h')"
        by (cases "download_files w sd files ?h") auto
      with hs have h': "h' = ?h @ hs" by simp
      show ?thesis
        using cwd nlst mk d h'
        by (cases r) (simp_all add: io_simps bind_def call_def)
    qed
  qed
qed

text \<open>
  Claim C9, amended. For an extracted transfer location that begins with
  \<^verbatim>\<open>ftp://ftp.ncbi.nlm.nih.gov/\<close> and does not contain that prefix again, the
  directory the file retriever changes to, once connected and logged in, is the URL with
  its host prefix stripped.
\<close>

theorem ncbi_url_changes_to_stripped_path:
  assumes "re_search_ftp study = Some ftp_url"
    and "ftp_url = ''ftp://ftp.ncbi.nlm.nih.gov/'' @ path"
    and "\<not> occurs_in ''ftp://ftp.ncbi.nlm.nih.gov/'' path"
    and "ftp_connect w (h @ [LogInfo (''Descargando desde: '' @ ftp_url)])
           ''ftp.ncbi.nlm.nih.gov'' = Inr ()"
    and "ftp_login w (h @ [LogInfo (''Descargando desde: '' @ ftp_url),
                          FtpConnect ''ftp.ncbi.nlm.nih.gov'']) = Inr ()"
  shows "remote_dir ftp_url = spec_strip_host ftp_url \<and>
         (\<exists>rest. snd (download_study w base_dir idx study h) =
            h @ [LogInfo (''Descargando desde: '' @ ftp_url),
                 FtpConnect ''ftp.ncbi.nlm.nih.gov'', FtpLogin,
                 FtpCwd (spec_strip_host ftp_url)] @ rest)"
proof -
  have r: "remote_dir ftp_url = spec_strip_host ftp_url"
    by (simp only: assms(2) remote_dir_ncbi [OF assms(3)] spec_strip_host_ncbi)
  let ?h = "h @ [LogInfo (''Descargando desde: '' @ ftp_url),
                 FtpConnect ''ftp.ncbi.nlm.nih.gov'', FtpLogin]"
  let ?sd = "os_path_join base_dir (''study_'' @ show_nat idx)"
  obtain hs where
    "snd (bind (call (FtpCwd (remote_dir ftp_url)) (\<lambda>h. ftp_cwd w h (remote_dir ftp_url))) (\<lambda>_.
          bind (call FtpNlst (ftp_nlst w)) (\<lambda>files.
          bind (call (Makedirs ?sd True) (\<lambda>h. os_makedirs w h ?sd True)) (\<lambda>_.
          bind (download_files w ?sd files) (\<lambda>_.
          call FtpQuit (ftp_quit w))))) ?h) = ?h @ FtpCwd (remote_dir ftp_url) # hs"
    using after_cwd_extends by blast
  then have "snd (download_study w base_dir idx study h) =
      h @ [LogInfo (''Descargando desde: '' @ ftp_url),
           FtpConnect ''ftp.ncbi.nlm.nih.gov'', FtpLogin,
           FtpCwd (remote_dir ftp_url)] @ hs"
    using assms(1,4,5) by (simp add: download_study_def io_simps)
  with r show ?thesis by auto
qed

lemma re_search_ftp_detail_text:
  "re_search_ftp detail_text = Some ''ftp://ftp.ncbi.nlm.nih.gov/geo/series/GSE1nnn/GSE1234/''"
  by (simp add: detail_text_def match_ftp_here_def quote_def)

theorem ncbi_url_changes_to_stripped_path_witness:
  "remote_dir ''ftp://ftp.ncbi.nlm.nih.gov/geo/series/GSE1nnn/GSE1234/'' =
     ''geo/series/GSE1nnn/GSE1234/'' \<and>
   (\<exists>rest. snd (download_study offline_world BASE_DIR 1 detail_text []) =
      [LogInfo ''Descargando desde: ftp://ftp.ncbi.nlm.nih.gov/geo/series/GSE1nnn/GSE1234/'',
       FtpConnect ''ftp.ncbi.nlm.nih.gov'', FtpLogin,
       FtpCwd ''geo/series/GSE1nnn/GSE1234/''] @ rest)"
  using ncbi_url_changes_to_stripped_path
    [OF re_search_ftp_detail_text, of "''geo/series/GSE1nnn/GSE1234/''" offline_world "[]"
        BASE_DIR 1]
  by (simp add: offline_world_def spec_strip_host_def)

lemma bind_download_files:
  "bind (download_files w d fs) f h =
     (case download_files w d fs h of (Inl e, h') \<Rightarrow> (Inl e, h') | (Inr x, h') \<Rightarrow> f x h')"
  by (simp add: bind_def)

lemma show_nat_1: "show_nat (Suc 0) = ''1''"
  by code_simp

text \<open>
  The claim as written fails for any other host: the handler still connects to
  \<^verbatim>\<open>ftp.ncbi.nlm.nih.gov\<close> and changes to the whole URL, host part included.
\<close>

theorem other_host_url_is_not_stripped_counterexample:
  "re_search_ftp example_org_study = Some ''ftp://ftp.example.org/pub/data'' \<and>
   spec_strip_host ''ftp://ftp.example.org/pub/data'' = ''pub/data'' \<and>
   download_study offline_world ''/home/caheri_salas/db_scRNAseq'' 1 example_org_study [] =
     (Inr (),
      [LogInfo ''Descargando desde: ftp://ftp.example.org/pub/data'',
       FtpConnect ''ftp.ncbi.nlm.nih.gov'', FtpLogin,
       FtpCwd ''ftp://ftp.example.org/pub/data'', FtpNlst,
       Makedirs ''/home/caheri_salas/db_scRNAseq/study_1'' True,
       OpenWb ''/home/caheri_salas/db_scRNAseq/study_1/soft.gz'',
       Retrbinary ''RETR soft.gz'' ''/home/caheri_salas/db_scRNAseq/study_1/soft.gz'',
       CloseFile ''/home/caheri_salas/db_scRNAseq/study_1/soft.gz'',
       LogInfo ''Archivo descargado: /home/caheri_salas/db_scRNAseq/study_1/soft.gz'',
       FtpQuit])"
proof -
  have m: "re_search_ftp example_org_study = Some ''ftp://ftp.example.org/pub/data''"
    by (simp add: example_org_study_def match_ftp_here_def quote_def)
  have d: "remote_dir ''ftp://ftp.example.org/pub/data'' = ''ftp://ftp.example.org/pub/data''"
    by (simp add: remote_dir_def str_replace_def)
  have s: "spec_strip_host ''ftp://ftp.example.org/pub/data'' = ''pub/data''"
    by (simp add: spec_strip_host_def)
  show ?thesis
    by (simp add: m d s download_study_def io_simps show_nat_1 os_path_join_def
        offline_world_def bind_download_files download_files_Cons download_files_Nil call_def)
qed

section \<open>A detail reply that is neither a success nor an error\<close>

lemma show_nat_2: "show_nat 2 = ''2''" "show_nat (Suc (Suc 0)) = ''2''" "show_nat (Suc 1) = ''2''"
  by code_simp+

lemma collect_details_not_modified:
  "collect_details not_modified_world [] =
     (Inr (Inr [[], detail_text]),
      [HttpGet NCBI_BASE_URL
         [(''db'', JStr ''gds''), (''term'', JStr ''mouse hippocampus rnaseq''),
          (''retmode'', JStr ''json''), (''api_key'', JNull)] 10,
       HttpGet NCBI_FETCH_URL
         [(''db'', JStr ''gds''), (''id'', JStr ''100001''),
          (''retmode'', JStr ''xml''), (''api_key'', JNull)] 10,
       HttpGet NCBI_FETCH_URL
         [(''db'', JStr ''gds''), (''id'', JStr ''100002''),
          (''retmode'', JStr ''xml''), (''api_key'', JNull)] 10])"
  using collect_details_search [of not_modified_world
      mouse_request "''mouse''" "''hippocampus''" "''rnaseq''" "[]"
      "search_reply [JStr ''100001'', JStr ''100002'']"
      "JObj [(''esearchresult'', JObj [(''idlist'', JArr [JStr ''100001'', JStr ''100002''])])]"
      "JArr [JStr ''100001'', JStr ''100002'']"]
  by (simp add: read_fields_mouse not_modified_world_def not_modified_reply_def offline_world_def
      search_reply_def detail_reply_def raise_for_status_def id_list_of_def dict_get_def
      and_then_def search_params_def fetch_params_def build_query_def api_key_param_def
      py_iter_def fetch_details_Cons fetch_details_Nil search_event_def fetch_event_def)

lemma download_study_not_modified_1:
  "download_study not_modified_world b i [] h = (Inr (), h)"
  by (simp add: download_study_def ret_def)

lemma download_study_not_modified_2:
  "download_study not_modified_world ''/home/caheri_salas/db_scRNAseq'' (Suc (Suc 0)) detail_text h =
     (Inr (),
      h @ [LogInfo ''Descargando desde: ftp://ftp.ncbi.nlm.nih.gov/geo/series/GSE1nnn/GSE1234/'',
       FtpConnect ''ftp.ncbi.nlm.nih.gov'', FtpLogin,
       FtpCwd ''geo/series/GSE1nnn/GSE1234/'', FtpNlst,
       Makedirs ''/home/caheri_salas/db_scRNAseq/study_2'' True,
       OpenWb ''/home/caheri_salas/db_scRNAseq/study_2/soft.gz'',
       Retrbinary ''RETR soft.gz'' ''/home/caheri_salas/db_scRNAseq/study_2/soft.gz'',
       CloseFile ''/home/caheri_salas/db_scRNAseq/study_2/soft.gz'',
       LogInfo ''Archivo descargado: /home/caheri_salas/db_scRNAseq/study_2/soft.gz'',
       FtpQuit])"
proof -
  have d: "remote_dir ''ftp://ftp.ncbi.nlm.nih.gov/geo/series/GSE1nnn/GSE1234/'' =
           ''geo/series/GSE1nnn/GSE1234/''"
    by (simp add: remote_dir_def str_replace_def)
  show ?thesis
    by (simp add: re_search_ftp_detail_text d download_study_def io_simps show_nat_2
        os_path_join_def not_modified_world_def offline_world_def bind_download_files
        download_files_Cons download_files_Nil call_def)
qed

lemma download_studies_not_modified:
  "download_studies not_modified_world ''/home/caheri_salas/db_scRNAseq'' (Suc 0)
     [[], detail_text] h =
     (Inr (),
      h @ [LogInfo ''Descargando desde: ftp://ftp.ncbi.nlm.nih.gov/geo/series/GSE1nnn/GSE1234/'',
       FtpConnect ''ftp.ncbi.nlm.nih.gov'', FtpLogin,
       FtpCwd ''geo/series/GSE1nnn/GSE1234/'', FtpNlst,
       Makedirs ''/home/caheri_salas/db_scRNAseq/study_2'' True,
       OpenWb ''/home/caheri_salas/db_scRNAseq/study_2/soft.gz'',
       Retrbinary ''RETR soft.gz'' ''/home/caheri_salas/db_scRNAseq/study_2/soft.gz'',
       CloseFile ''/home/caheri_salas/db_scRNAseq/study_2/soft.gz'',
       LogInfo ''Archivo descargado: /home/caheri_salas/db_scRNAseq/study_2/soft.gz'',
       FtpQuit])"
  by (simp add: bind_def download_study_not_modified_1 download_study_not_modified_2 ret_def)

text \<open>
  The claim as written fails for a status that is neither a success nor an error: when
  the first detail reply has status 304, \<^verbatim>\<open>raise_for_status\<close> does not raise, the
  second identifier is fetched, the download phase runs and the answer is 200.
\<close>

theorem not_modified_detail_reply_counterexample:
  "raise_for_status not_modified_reply = Inr () \<and>
   status_code not_modified_reply = 304 \<and>
   fetch_rnaseq_data not_modified_world =
     ((jsonify ''message'' ''All data fetched and saved successfully.'', 200),
      [HttpGet NCBI_BASE_URL
         [(''db'', JStr ''gds''), (''term'', JStr ''mouse hippocampus rnaseq''),
          (''retmode'', JStr ''json''), (''api_key'', JNull)] 10,
       HttpGet NCBI_FETCH_URL
         [(''db'', JStr ''gds''), (''id'', JStr ''100001''),
          (''retmode'', JStr ''xml''), (''api_key'', JNull)] 10,
       HttpGet NCBI_FETCH_URL
         [(''db'', JStr ''gds''), (''id'', JStr ''100002''),
          (''retmode'', JStr ''xml''), (''api_key'', JNull)] 10,
       PathExists ''/home/caheri_salas/db_scRNAseq'',
       Makedirs ''/home/caheri_salas/db_scRNAseq'' False,
       LogInfo ''Descargando desde: ftp://ftp.ncbi.nlm.nih.gov/geo/series/GSE1nnn/GSE1234/'',
       FtpConnect ''ftp.ncbi.nlm.nih.gov'', FtpLogin,
       FtpCwd ''geo/series/GSE1nnn/GSE1234/'', FtpNlst,
       Makedirs ''/home/caheri_salas/db_scRNAseq/study_2'' True,
       OpenWb ''/home/caheri_salas/db_scRNAseq/study_2/soft.gz'',
       Retrbinary ''RETR soft.gz'' ''/home/caheri_salas/db_scRNAseq/study_2/soft.gz'',
       CloseFile ''/home/caheri_salas/db_scRNAseq/study_2/soft.gz'',
       LogInfo ''Archivo descargado: /home/caheri_salas/db_scRNAseq/study_2/soft.gz'',
       FtpQuit])"
proof -
  have r: "resolve_base_dir not_modified_world h =
      (Inr (Some ''/home/caheri_salas/db_scRNAseq''),
       h @ [PathExists ''/home/caheri_salas/db_scRNAseq'',
            Makedirs ''/home/caheri_salas/db_scRNAseq'' False])" for h
    by (simp add: resolve_base_dir_def io_simps ret_def not_modified_world_def offline_world_def
        BASE_DIR_def)
  have s: "save_details not_modified_world [[], detail_text] h =
      (Inr (jsonify ''message'' ''All data fetched and saved successfully.'', 200),
       h @ [PathExists ''/home/caheri_salas/db_scRNAseq'',
         Makedirs ''/home/caheri_salas/db_scRNAseq'' False,
         LogInfo ''Descargando desde: ftp://ftp.ncbi.nlm.nih.gov/geo/series/GSE1nnn/GSE1234/'',
         FtpConnect ''ftp.ncbi.nlm.nih.gov'', FtpLogin,
         FtpCwd ''geo/series/GSE1nnn/GSE1234/'', FtpNlst,
         Makedirs ''/home/caheri_salas/db_scRNAseq/study_2'' True,
         OpenWb ''/home/caheri_salas/db_scRNAseq/study_2/soft.gz'',
         Retrbinary ''RETR soft.gz'' ''/home/caheri_salas/db_scRNAseq/study_2/soft.gz'',
         CloseFile ''/home/caheri_salas/db_scRNAseq/study_2/soft.gz'',
         LogInfo ''Archivo descargado: /home/caheri_salas/db_scRNAseq/study_2/soft.gz'',
         FtpQuit])" for h
    by (simp add: save_details_def bind_def r download_studies_not_modified ret_def
        del: download_studies.simps)
  show ?thesis
    by (simp add: fetch_rnaseq_data_def try_body_unfold collect_details_not_modified s
        raise_for_status_def not_modified_reply_def)
qed

end
